theory Spec2Isabelle
  imports Main "HOL-Library.Word"
begin

section \<open>JavaScript strings\<close>

text \<open>
  A JavaScript string is a sequence of 16-bit code units. ASCII literals of the source
  are written \<open>js ''...''\<close>.
\<close>

type_synonym jstring = "16 word list"

definition js :: "string \<Rightarrow> jstring" where
  "js s = map (\<lambda>c. of_nat (of_char c)) s"

text \<open>
  \<open>String.prototype.trim\<close> strips WhiteSpace and LineTerminator code points from both
  ends: TAB, LF, VT, FF, CR, SP, NBSP, U+1680, U+2000..U+200A, LS, PS, U+202F, U+205F,
  U+3000 and the byte order mark.
\<close>

definition is_white_space :: "16 word \<Rightarrow> bool" where
  "is_white_space c \<longleftrightarrow>
     c \<in> set [0x9, 0xA, 0xB, 0xC, 0xD, 0x20, 0xA0, 0x1680,
               0x2000, 0x2001, 0x2002, 0x2003, 0x2004, 0x2005, 0x2006, 0x2007, 0x2008,
               0x2009, 0x200A, 0x2028, 0x2029, 0x202F, 0x205F, 0x3000, 0xFEFF]"

definition trim :: "jstring \<Rightarrow> jstring" where
  "trim s = rev (dropWhile is_white_space (rev (dropWhile is_white_space s)))"

text \<open>
  Truthiness of a value of type \<open>string | undefined\<close>: \<open>undefined\<close> and the empty
  string are falsy, every other string is truthy. This is the test behind
  \<open>if (scheduledTime)\<close>, \<open>Boolean(imageUrl)\<close>, \<open>link && ...\<close>, \<open>mode && ...\<close> and
  \<open>!json.id\<close>.
\<close>

definition truthy :: "jstring option \<Rightarrow> bool" where
  "truthy v = (case v of None \<Rightarrow> False | Some s \<Rightarrow> s \<noteq> [])"

text \<open>\<open>!x?.trim()\<close>: true when \<open>x\<close> is undefined or trims to the empty string.\<close>

definition blank :: "jstring option \<Rightarrow> bool" where
  "blank v = (case v of None \<Rightarrow> True | Some s \<Rightarrow> trim s = [])"

text \<open>
  \<open>String(n)\<close> for an integral Number below \<open>10^21\<close> in magnitude: its decimal digits,
  with a leading minus sign when negative.
\<close>

fun digits :: "nat \<Rightarrow> jstring" where
  "digits n = (if n < 10 then [of_nat (48 + n)] else digits (n div 10) @ [of_nat (48 + n mod 10)])"

declare digits.simps [simp del]

definition String_of :: "int \<Rightarrow> jstring" where
  "String_of n = (if n < 0 then js ''-'' @ digits (nat (- n)) else digits (nat n))"

section \<open>The relay endpoint (route handler \<open>POST\<close>)\<close>

record PublishRequest =
  req_pageId :: "jstring option"
  req_accessToken :: "jstring option"
  req_message :: "jstring option"
  req_link :: "jstring option"
  req_imageUrl :: "jstring option"
  req_scheduledTime :: "jstring option"
  req_mode :: "jstring option"

text \<open>The body handed to \<open>NextResponse.json\<close>: \<open>{ error }\<close> or \<open>{ id }\<close>.\<close>

datatype response_body = ErrorBody jstring | IdBody jstring

record NextResponse =
  res_status :: nat
  res_body :: response_body

text \<open>
  \<open>GraphPublishResponse\<close>: the decoded upstream body, read through \<open>json.id\<close> and
  \<open>json.error\<close>; the error is a string or an object with an optional message.
\<close>

datatype graph_error = ErrorString jstring | ErrorObject "jstring option"

record GraphPublishResponse =
  g_id :: "jstring option"
  g_error :: "graph_error option"

text \<open>
  What \<open>fetch\<close> resolves to: \<open>response.ok\<close>, \<open>response.status\<close> and the outcome of
  \<open>response.json()\<close> (\<open>None\<close> when it rejects: a body that is empty or not JSON).
  A rejected \<open>fetch\<close> throws an \<open>Error\<close> with a message, or some other value.
\<close>

record fetch_response =
  up_ok :: bool
  up_status :: nat
  up_json :: "GraphPublishResponse option"

datatype thrown = ErrorThrown jstring | OtherThrown

datatype fetch_outcome = Resolved fetch_response | Rejected thrown

text \<open>
  The outbound call: the URL template handed to \<open>new URL\<close> and the entries of
  \<open>bodyParams\<close> in insertion order (the form body is their urlencoding). The method
  (POST) and the content-type header are constants of the source.
\<close>

record outbound =
  targetUrl :: jstring
  bodyParams :: "(jstring \<times> jstring) list"

definition META_API_VERSION :: jstring where
  "META_API_VERSION = js ''v19.0''"

text \<open>
  Lines 40-56: resolving \<open>scheduleTimestamp\<close>. \<open>Date.parse\<close> is the platform's and is a
  parameter: \<open>None\<close> stands for NaN, \<open>Some t\<close> for a time value in milliseconds (an
  integer, so \<open>Math.floor(parsed / 1000)\<close> is \<open>t div 1000\<close>). \<open>now\<close> is \<open>Date.now()\<close>.
\<close>

definition resolve_schedule ::
  "(jstring \<Rightarrow> int option) \<Rightarrow> int \<Rightarrow> jstring option \<Rightarrow> NextResponse + int option" where
  "resolve_schedule Date_parse now scheduledTime =
     (if truthy scheduledTime then
        (case Date_parse (the scheduledTime) of
           None \<Rightarrow> Inl \<lparr>res_status = 400, res_body = ErrorBody (js ''scheduledTime must be an ISO date.'')\<rparr>
         | Some parsed \<Rightarrow>
             (let scheduleTimestamp = parsed div 1000 in
              if scheduleTimestamp \<le> now div 1000
              then Inl \<lparr>res_status = 400, res_body = ErrorBody (js ''scheduledTime must be in the future.'')\<rparr>
              else Inr (Some scheduleTimestamp)))
      else Inr None)"

text \<open>
  Lines 58-83: the target URL and \<open>bodyParams\<close>. The arguments are the destructured
  payload fields after validation (\<open>pageId\<close>, \<open>accessToken\<close> and \<open>message\<close> are strings
  there) and \<open>scheduleTimestamp\<close>. \<open>if (scheduleTimestamp)\<close> is a truthiness test:
  \<open>undefined\<close> and \<open>0\<close> are falsy.
\<close>

definition build_request ::
  "jstring \<Rightarrow> jstring \<Rightarrow> jstring \<Rightarrow> jstring option \<Rightarrow> jstring option \<Rightarrow> int option \<Rightarrow> outbound" where
  "build_request pageId accessToken message link imageUrl scheduleTimestamp =
     (let isPhoto = truthy imageUrl;
          endpoint = (if isPhoto then js ''photos'' else js ''feed'');
          url = js ''https://graph.facebook.com/'' @ META_API_VERSION @ js ''/'' @ pageId
                  @ js ''/'' @ endpoint;
          params0 = [(js ''access_token'', trim accessToken), (js ''message'', trim message)];
          params1 = (if truthy link \<and> \<not> isPhoto
                     then params0 @ [(js ''link'', trim (the link))] else params0);
          params2 = (if isPhoto \<and> truthy imageUrl
                     then params1 @ [(js ''url'', trim (the imageUrl))] else params1);
          params3 = (if (case scheduleTimestamp of None \<Rightarrow> False | Some ts \<Rightarrow> ts \<noteq> 0)
                     then params2 @ [(js ''scheduled_publish_time'', String_of (the scheduleTimestamp)),
                                     (js ''published'', js ''false'')]
                     else if isPhoto then params2 @ [(js ''published'', js ''true'')]
                     else params2)
      in \<lparr>targetUrl = url, bodyParams = params3\<rparr>)"

text \<open>
  \<open>NextResponse.json(body, { status })\<close> builds a response that has a body. The
  constructor throws a \<open>RangeError\<close> when the status is outside 200..599 and a
  \<open>TypeError\<close> when it is a null-body status (204, 205 and 304; 101 and 103 are already
  out of range). Both are \<open>Error\<close>s: \<open>Response_error st\<close> is the message of the error
  thrown for the status \<open>st\<close>, which is the platform's and a parameter.
\<close>

definition rejects_status :: "nat \<Rightarrow> bool" where
  "rejects_status st \<longleftrightarrow> st < 200 \<or> 599 < st \<or> st = 204 \<or> st = 205 \<or> st = 304"

definition NextResponse_json ::
  "(nat \<Rightarrow> jstring) \<Rightarrow> response_body \<Rightarrow> nat \<Rightarrow> thrown + NextResponse" where
  "NextResponse_json Response_error body st =
     (if rejects_status st then Inl (ErrorThrown (Response_error st))
      else Inr \<lparr>res_status = st, res_body = body\<rparr>)"

text \<open>
  Lines 92-105, inside the \<open>try\<close>: mapping the upstream response. The result is the
  response returned, or what the call of \<open>NextResponse.json\<close> throws.
\<close>

definition map_upstream :: "(nat \<Rightarrow> jstring) \<Rightarrow> fetch_response \<Rightarrow> thrown + NextResponse" where
  "map_upstream Response_error response =
     (let json = (case up_json response of
                    None \<Rightarrow> \<lparr>g_id = None, g_error = None\<rparr>
                  | Some j \<Rightarrow> j)
      in if \<not> up_ok response \<or> \<not> truthy (g_id json) then
           (let graphError =
                  (case g_error json of
                     Some (ErrorString s) \<Rightarrow> s
                   | Some (ErrorObject (Some m)) \<Rightarrow> m
                   | Some (ErrorObject None) \<Rightarrow> js ''Meta API error.''
                   | None \<Rightarrow> js ''Meta API error.'')
            in NextResponse_json Response_error (ErrorBody graphError)
                 (if up_status response \<noteq> 0 then up_status response else 500))
         else NextResponse_json Response_error (IdBody (the (g_id json))) 200)"

text \<open>
  Lines 106-109: the \<open>catch\<close> of the \<open>try\<close> around \<open>fetch\<close> and the mapping of its
  response.
\<close>

definition POST_catch :: "thrown \<Rightarrow> NextResponse" where
  "POST_catch err =
     \<lparr>res_status = 500,
      res_body = ErrorBody (case err of
                              ErrorThrown m \<Rightarrow> m
                            | OtherThrown \<Rightarrow> js ''Unexpected server error.'')\<rparr>"

text \<open>Line 36: \<open>mode && mode !== "now" && mode !== "schedule"\<close>.\<close>

definition invalid_mode :: "jstring option \<Rightarrow> bool" where
  "invalid_mode mode \<longleftrightarrow>
     truthy mode \<and> mode \<noteq> Some (js ''now'') \<and> mode \<noteq> Some (js ''schedule'')"

text \<open>
  The handler. The payload is \<open>None\<close> when \<open>request.json()\<close> throws; otherwise its fields
  are strings or undefined, as the type \<open>PublishRequest\<close> declares, and the decoded
  upstream body is of the type \<open>GraphPublishResponse\<close> it is cast to. The calls of
  \<open>NextResponse.json\<close> with the constant statuses 400, 500 and 200 never throw and are
  written as the record they build. The result is the list of outbound calls made, in
  order, and the response returned.
\<close>

definition POST ::
  "(nat \<Rightarrow> jstring) \<Rightarrow> (jstring \<Rightarrow> int option) \<Rightarrow> int \<Rightarrow> (outbound \<Rightarrow> fetch_outcome)
     \<Rightarrow> PublishRequest option \<Rightarrow> outbound list \<times> NextResponse" where
  "POST Response_error Date_parse now fetch request_json =
     (case request_json of
        None \<Rightarrow> ([], \<lparr>res_status = 400, res_body = ErrorBody (js ''Invalid JSON payload.'')\<rparr>)
      | Some payload \<Rightarrow>
          if blank (req_pageId payload) \<or> blank (req_accessToken payload)
               \<or> blank (req_message payload)
          then ([], \<lparr>res_status = 400,
                     res_body = ErrorBody (js ''Missing required pageId, accessToken, or message.'')\<rparr>)
          else if invalid_mode (req_mode payload)
          then ([], \<lparr>res_status = 400, res_body = ErrorBody (js ''Invalid mode provided.'')\<rparr>)
          else
            (case resolve_schedule Date_parse now (req_scheduledTime payload) of
               Inl bad \<Rightarrow> ([], bad)
             | Inr scheduleTimestamp \<Rightarrow>
                 (let call = build_request (the (req_pageId payload))
                               (the (req_accessToken payload)) (the (req_message payload))
                               (req_link payload) (req_imageUrl payload) scheduleTimestamp
                  in (case fetch call of
                        Resolved response \<Rightarrow>
                          (case map_upstream Response_error response of
                             Inr result \<Rightarrow> ([call], result)
                           | Inl err \<Rightarrow> ([call], POST_catch err))
                      | Rejected err \<Rightarrow> ([call], POST_catch err)))))"

section \<open>The dashboard controller (\<open>MetaAutomationDashboard\<close>)\<close>

datatype PublishMode = Now | Schedule

record PostTemplate =
  tpl_id :: jstring
  tpl_name :: jstring
  tpl_message :: jstring
  tpl_link :: "jstring option"
  tpl_imageUrl :: "jstring option"

text \<open>The status literals \<open>"pending" | "success" | "error"\<close>.\<close>

datatype post_status = Pending | Success | Failure

text \<open>The response attached to a queue entry: \<open>{ id?: string; error?: string }\<close>.\<close>

record response_data =
  data_id :: "jstring option"
  data_error :: "jstring option"

record QueuedPost =
  q_id :: jstring
  q_message :: jstring
  q_link :: "jstring option"
  q_imageUrl :: "jstring option"
  q_mode :: PublishMode
  q_scheduledTime :: "jstring option"
  q_createdAt :: jstring
  q_status :: post_status
  q_response :: "response_data option"

record PublishPayload =
  p_pageId :: jstring
  p_accessToken :: jstring
  p_message :: jstring
  p_link :: "jstring option"
  p_imageUrl :: "jstring option"
  p_scheduledTime :: "jstring option"
  p_mode :: PublishMode

text \<open>What \<open>publishToMeta\<close> resolves to: \<open>{ ok, data }\<close>.\<close>

record publish_result =
  result_ok :: bool
  result_data :: response_data

text \<open>
  The component's state: one field per \<open>useState\<close> / \<open>usePersistentState\<close> cell, and the
  \<open>useMemo\<close> cell of \<open>canSchedule\<close> with the dependency values \<open>[mode, scheduledTime]\<close> it
  was last computed for.
\<close>

record dashboard =
  pageId :: jstring
  accessToken :: jstring
  mode :: PublishMode
  message :: jstring
  link :: jstring
  imageUrl :: jstring
  scheduledTime :: jstring
  templates :: "PostTemplate list"
  templateName :: jstring
  queue :: "QueuedPost list"
  error :: "jstring option"
  success :: "jstring option"
  canSchedule :: bool
  canSchedule_deps :: "PublishMode \<times> jstring"

text \<open>
  \<open>isFuture\<close> of date-fns: the date's time value is greater than \<open>Date.now()\<close>; an
  Invalid Date (\<open>None\<close>) is not in the future. \<open>parseISO\<close> of date-fns is a parameter.
\<close>

definition isFuture :: "int \<Rightarrow> int option \<Rightarrow> bool" where
  "isFuture now date = (case date of None \<Rightarrow> False | Some t \<Rightarrow> now < t)"

text \<open>Lines 78-81: the function memoised by \<open>useMemo\<close>.\<close>

definition canSchedule_body :: "(jstring \<Rightarrow> int option) \<Rightarrow> int \<Rightarrow> PublishMode \<Rightarrow> jstring \<Rightarrow> bool" where
  "canSchedule_body parseISO now m t = (if m = Now then True else isFuture now (parseISO t))"

text \<open>
  A render at clock \<open>now\<close>: \<open>useMemo\<close> calls the function on the first render, and on a later
  render only when a dependency differs from the previous render's; otherwise it
  returns the cached value.
\<close>

definition first_render :: "(jstring \<Rightarrow> int option) \<Rightarrow> int \<Rightarrow> dashboard \<Rightarrow> dashboard" where
  "first_render parseISO now s =
     s\<lparr>canSchedule := canSchedule_body parseISO now (mode s) (scheduledTime s),
       canSchedule_deps := (mode s, scheduledTime s)\<rparr>"

definition render :: "(jstring \<Rightarrow> int option) \<Rightarrow> int \<Rightarrow> dashboard \<Rightarrow> dashboard" where
  "render parseISO now s =
     (if canSchedule_deps s = (mode s, scheduledTime s) then s
      else first_render parseISO now s)"

text \<open>\<open>x.trim() || undefined\<close>.\<close>

definition trim_or_undefined :: "jstring \<Rightarrow> jstring option" where
  "trim_or_undefined x = (if trim x = [] then None else Some (trim x))"

text \<open>
  Lines 83-99. \<open>new_id\<close> is the value \<open>uuid()\<close> returns in this call.
\<close>

definition handleTemplateSave :: "jstring \<Rightarrow> dashboard \<Rightarrow> dashboard" where
  "handleTemplateSave new_id s =
     (if trim (templateName s) = [] \<or> trim (message s) = []
      then s\<lparr>error := Some (js ''Template needs a name and message.'')\<rparr>
      else
        (let newTemplate = \<lparr>tpl_id = new_id, tpl_name = trim (templateName s),
                             tpl_message = message s,
                             tpl_link = trim_or_undefined (link s),
                             tpl_imageUrl = trim_or_undefined (imageUrl s)\<rparr>
         in s\<lparr>templates := filter (\<lambda>tpl. tpl_name tpl \<noteq> tpl_name newTemplate) (templates s)
                               @ [newTemplate],
               templateName := [],
               success := Some (js ''Template saved.''),
               error := None\<rparr>))"

text \<open>Lines 101-107. The code unit \<open>0x22\<close> is the double quote of the feedback text.\<close>

definition applyTemplate :: "PostTemplate \<Rightarrow> dashboard \<Rightarrow> dashboard" where
  "applyTemplate template s =
     s\<lparr>message := tpl_message template,
       link := (case tpl_link template of None \<Rightarrow> [] | Some l \<Rightarrow> l),
       imageUrl := (case tpl_imageUrl template of None \<Rightarrow> [] | Some u \<Rightarrow> u),
       success := Some (js ''Loaded template '' @ [0x22] @ tpl_name template @ [0x22] @ js ''.''),
       error := None\<rparr>"

text \<open>Lines 165-167.\<close>

definition handleTemplateDelete :: "jstring \<Rightarrow> dashboard \<Rightarrow> dashboard" where
  "handleTemplateDelete ident s =
     s\<lparr>templates := filter (\<lambda>tpl. tpl_id tpl \<noteq> ident) (templates s)\<rparr>"

text \<open>
  Lines 109-146: the synchronous part of \<open>enqueuePost\<close>. \<open>new_id\<close> is the value of
  \<open>uuid()\<close> and \<open>created\<close> the value of \<open>new Date().toISOString()\<close> in this call;
  \<open>canSchedule\<close> is read from the render the handler belongs to. The second component
  is the relay call issued by \<open>startTransition\<close>: the entry's identifier it will settle
  and the payload given to \<open>publishToMeta\<close>, or \<open>None\<close> when the handler returns early.
\<close>

definition enqueuePost ::
  "jstring \<Rightarrow> jstring \<Rightarrow> dashboard \<Rightarrow> dashboard \<times> (jstring \<times> PublishPayload) option" where
  "enqueuePost new_id created s =
     (if trim (pageId s) = [] \<or> trim (accessToken s) = [] \<or> trim (message s) = []
      then (s\<lparr>error := Some (js ''Page ID, access token, and message are required.'')\<rparr>, None)
      else if mode s = Schedule \<and> \<not> canSchedule s
      then (s\<lparr>error := Some (js ''Scheduled time must be in the future.'')\<rparr>, None)
      else
        (let payload = \<lparr>p_pageId = trim (pageId s), p_accessToken = trim (accessToken s),
                         p_message = trim (message s),
                         p_link = trim_or_undefined (link s),
                         p_imageUrl = trim_or_undefined (imageUrl s),
                         p_scheduledTime = (if mode s = Schedule then Some (scheduledTime s) else None),
                         p_mode = mode s\<rparr>;
             queued = \<lparr>q_id = new_id, q_message = p_message payload, q_link = p_link payload,
                        q_imageUrl = p_imageUrl payload, q_mode = mode s,
                        q_scheduledTime = p_scheduledTime payload, q_createdAt = created,
                        q_status = Pending, q_response = None\<rparr>
         in (s\<lparr>queue := queued # queue s,
                error := None,
                success := Some (if mode s = Schedule then js ''Scheduled post queued.''
                                 else js ''Immediate post queued.'')\<rparr>,
             Some (q_id queued, payload))))"

text \<open>
  Lines 148-162: the state updates made when the relay call of the entry \<open>queued_id\<close>
  settles with \<open>result\<close>.
\<close>

definition settle :: "jstring \<Rightarrow> publish_result \<Rightarrow> dashboard \<Rightarrow> dashboard" where
  "settle queued_id result s =
     s\<lparr>queue := map (\<lambda>post. if q_id post = queued_id
                              then post\<lparr>q_status := (if result_ok result then Success else Failure),
                                        q_response := Some (result_data result)\<rparr>
                              else post) (queue s),
       error := (if result_ok result then None
                 else Some (case data_error (result_data result) of
                              None \<Rightarrow> js ''Meta API error.''
                            | Some e \<Rightarrow> e))\<rparr>"

text \<open>
  The state after the first render: every cell at its \<open>useState\<close> default (credentials and
  templates before anything is read from local storage), \<open>scheduledTime\<close> at the value
  of \<open>defaultScheduledIso()\<close>, and \<open>canSchedule\<close> computed for mode \<open>"now"\<close>.
\<close>

definition initial_state :: "jstring \<Rightarrow> dashboard" where
  "initial_state defaultScheduledIso =
     \<lparr>pageId = [], accessToken = [], mode = Now, message = [], link = [], imageUrl = [],
      scheduledTime = defaultScheduledIso, templates = [], templateName = [], queue = [],
      error = None, success = None, canSchedule = True,
      canSchedule_deps = (Now, defaultScheduledIso)\<rparr>"

section \<open>Example inputs\<close>

text \<open>
  The request \<open>{pageId: "123", accessToken: "tok", message: "hello", mode: "now"}\<close> and an
  upstream that answers HTTP 200 with \<open>{id: "999"}\<close>.
\<close>

definition example_request :: PublishRequest where
  "example_request =
     \<lparr>req_pageId = Some (js ''123''), req_accessToken = Some (js ''tok''),
      req_message = Some (js ''hello''), req_link = None, req_imageUrl = None,
      req_scheduledTime = None, req_mode = Some (js ''now'')\<rparr>"

definition mock_upstream :: "outbound \<Rightarrow> fetch_outcome" where
  "mock_upstream call =
     Resolved \<lparr>up_ok = True, up_status = 200,
               up_json = Some \<lparr>g_id = Some (js ''999''), g_error = None\<rparr>\<rparr>"

text \<open>
  Two failing upstreams: HTTP 400 with \<open>{error: {message: "Invalid OAuth access token."}}\<close>,
  and a response with status 0 whose body is not JSON.
\<close>

definition mock_upstream_error :: "outbound \<Rightarrow> fetch_outcome" where
  "mock_upstream_error call =
     Resolved \<lparr>up_ok = False, up_status = 400,
               up_json = Some \<lparr>g_id = None,
                                g_error = Some (ErrorObject (Some (js ''Invalid OAuth access token.'')))\<rparr>\<rparr>"

definition mock_upstream_empty :: "outbound \<Rightarrow> fetch_outcome" where
  "mock_upstream_empty call = Resolved \<lparr>up_ok = False, up_status = 0, up_json = None\<rparr>"

text \<open>
  An upstream that answers HTTP 204 with no body, and a platform whose response
  constructor reports a refused status with the text shown.
\<close>

definition mock_upstream_no_content :: "outbound \<Rightarrow> fetch_outcome" where
  "mock_upstream_no_content call = Resolved \<lparr>up_ok = True, up_status = 204, up_json = None\<rparr>"

definition example_Date_parse :: "jstring \<Rightarrow> int option" where
  "example_Date_parse s = None"

definition example_Response_error :: "nat \<Rightarrow> jstring" where
  "example_Response_error st =
     js ''Response constructor: Invalid response status code '' @ String_of (int st)"

text \<open>A queue of two pending entries and a successful relay result.\<close>

definition example_queue :: "QueuedPost list" where
  "example_queue =
     [\<lparr>q_id = js ''b'', q_message = js ''second'', q_link = None, q_imageUrl = None,
       q_mode = Now, q_scheduledTime = None, q_createdAt = js ''2024-01-01T00:00:01.000Z'',
       q_status = Pending, q_response = None\<rparr>,
      \<lparr>q_id = js ''a'', q_message = js ''first'', q_link = None, q_imageUrl = None,
       q_mode = Now, q_scheduledTime = None, q_createdAt = js ''2024-01-01T00:00:00.000Z'',
       q_status = Pending, q_response = None\<rparr>]"

definition example_result :: publish_result where
  "example_result = \<lparr>result_ok = True,
                      result_data = \<lparr>data_id = Some (js ''999''), data_error = None\<rparr>\<rparr>"

text \<open>
  A session of the dashboard. The first render is at clock 0 with the default scheduled
  time one hour ahead (\<open>parseISO\<close> gives 3600000 ms for it). At clock 1000 the user clicks
  "Schedule" (\<open>setMode("schedule")\<close>, \<open>setScheduledTime(defaultScheduledIso())\<close>) and the
  component renders; the credentials and the message are typed and the component
  renders again at clock 2000.
\<close>

definition example_parseISO :: "jstring \<Rightarrow> int option" where
  "example_parseISO t = (if t = js ''1970-01-01T01:00'' then Some 3600000 else None)"

definition stale_session :: dashboard where
  "stale_session =
     render example_parseISO 2000
       ((render example_parseISO 1000
          ((first_render example_parseISO 0 (initial_state (js ''1970-01-01T01:00'')))
             \<lparr>mode := Schedule, scheduledTime := js ''1970-01-01T01:00''\<rparr>))
          \<lparr>pageId := js ''123'', accessToken := js ''tok'', message := js ''hello''\<rparr>)"

section \<open>Properties of the relay endpoint\<close>

subsection \<open>Auxiliary facts\<close>

lemma code_unit_inject:
  "(of_nat (of_char x) :: 16 word) = of_nat (of_char y) \<longleftrightarrow> x = y"
proof
  assume h: "(of_nat (of_char x) :: 16 word) = of_nat (of_char y)"
  have u: "unat (of_nat (of_char c) :: 16 word) = of_char c" for c :: char
  proof -
    have "(of_char c :: nat) < 65536"
      using nat_of_char_less_256 [of c] by linarith
    then show ?thesis by (simp add: unat_of_nat)
  qed
  from h have "unat (of_nat (of_char x) :: 16 word) = unat (of_nat (of_char y) :: 16 word)"
    by simp
  then have "(of_char x :: nat) = of_char y"
    by (simp only: u)
  then show "x = y"
    by (simp only: of_char_eq_iff)
qed simp

lemma js_inject: "js a = js b \<longleftrightarrow> a = b"
proof -
  have "inj (\<lambda>c::char. (of_nat (of_char c) :: 16 word))"
    by (rule injI) (simp only: code_unit_inject)
  then show ?thesis
    unfolding js_def by (rule inj_map_eq_map)
qed

lemma body_scheduled_publish_time:
  "map_of (bodyParams (build_request pid tok msg l img ts)) (js ''scheduled_publish_time'') =
     (if (case ts of None \<Rightarrow> False | Some t \<Rightarrow> t \<noteq> 0) then Some (String_of (the ts)) else None)"
  by (simp add: build_request_def Let_def js_inject)

lemma body_published:
  "map_of (bodyParams (build_request pid tok msg l img ts)) (js ''published'') =
     (if (case ts of None \<Rightarrow> False | Some t \<Rightarrow> t \<noteq> 0) then Some (js ''false'')
      else if truthy img then Some (js ''true'') else None)"
  by (simp add: build_request_def Let_def js_inject)

lemma body_link:
  "map_of (bodyParams (build_request pid tok msg l img ts)) (js ''link'') =
     (if truthy l \<and> \<not> truthy img then Some (trim (the l)) else None)"
  by (simp add: build_request_def Let_def js_inject)

lemma body_keys_distinct:
  "distinct (map fst (bodyParams (build_request pid tok msg l img ts)))"
  by (simp add: build_request_def Let_def js_inject)

lemma target_of_build_request:
  "targetUrl (build_request pid tok msg l img ts) =
     js ''https://graph.facebook.com/v19.0/'' @ pid @
       (if truthy img then js ''/photos'' else js ''/feed'')"
  by (simp add: build_request_def Let_def META_API_VERSION_def js_def)

lemma POST_forwards:
  assumes "\<not> blank (req_pageId p)" "\<not> blank (req_accessToken p)" "\<not> blank (req_message p)"
    and "\<not> invalid_mode (req_mode p)"
    and "resolve_schedule Date_parse now (req_scheduledTime p) = Inr ts"
  shows "fst (POST Response_error Date_parse now fetch (Some p)) =
           [build_request (the (req_pageId p)) (the (req_accessToken p)) (the (req_message p))
              (req_link p) (req_imageUrl p) ts]"
  using assms by (simp add: POST_def Let_def split: fetch_outcome.split sum.split)

lemma POST_forwarded_cases:
  assumes "fst (POST Response_error Date_parse now fetch rq) = [call]"
  shows "\<exists>p ts. rq = Some p \<and> \<not> blank (req_pageId p) \<and> \<not> blank (req_accessToken p)
           \<and> \<not> blank (req_message p) \<and> \<not> invalid_mode (req_mode p)
           \<and> resolve_schedule Date_parse now (req_scheduledTime p) = Inr ts
           \<and> call = build_request (the (req_pageId p)) (the (req_accessToken p))
                      (the (req_message p)) (req_link p) (req_imageUrl p) ts"
  using assms
  by (auto simp: POST_def Let_def split: option.splits if_splits sum.splits fetch_outcome.splits)

lemma POST_response:
  assumes "fst (POST Response_error Date_parse now fetch rq) = [call]" and "fetch call = Resolved r"
  shows "snd (POST Response_error Date_parse now fetch rq) =
           (case map_upstream Response_error r of Inr result \<Rightarrow> result | Inl err \<Rightarrow> POST_catch err)"
  using assms
  by (auto simp: POST_def Let_def split: option.splits if_splits sum.splits fetch_outcome.splits)

lemma resolve_schedule_future:
  assumes "s \<noteq> []" "Date_parse s = Some t" "now div 1000 < t div 1000"
  shows "resolve_schedule Date_parse now (Some s) = Inr (Some (t div 1000))"
  using assms by (simp add: resolve_schedule_def truthy_def Let_def)

lemma resolve_schedule_absent:
  "\<not> truthy st \<Longrightarrow> resolve_schedule Date_parse now st = Inr None"
  by (simp add: resolve_schedule_def)

lemma trim_empty_iff: "trim s = [] \<longleftrightarrow> (\<forall>c\<in>set s. is_white_space c)"
proof
  assume "trim s = []"
  then have all: "\<forall>c\<in>set (dropWhile is_white_space s). is_white_space c"
    by (simp add: trim_def dropWhile_eq_Nil_conv)
  have "dropWhile is_white_space s = []"
  proof (rule ccontr)
    assume ne: "dropWhile is_white_space s \<noteq> []"
    then have "\<not> is_white_space (hd (dropWhile is_white_space s))"
      by (rule hd_dropWhile)
    moreover have "hd (dropWhile is_white_space s) \<in> set (dropWhile is_white_space s)"
      using ne by (rule hd_in_set)
    ultimately show False using all by blast
  qed
  then show "\<forall>c\<in>set s. is_white_space c"
    by (simp add: dropWhile_eq_Nil_conv)
next
  assume "\<forall>c\<in>set s. is_white_space c"
  then have d: "dropWhile is_white_space s = []"
    by (simp add: dropWhile_eq_Nil_conv)
  show "trim s = []"
    unfolding trim_def d by simp
qed

lemma blank_iff:
  "blank v \<longleftrightarrow> v = None \<or> (\<exists>s. v = Some s \<and> (\<forall>c\<in>set s. is_white_space c))"
  by (cases v) (simp_all add: blank_def trim_empty_iff)

lemma POST_scheduled_call:
  assumes "\<not> blank (req_pageId p)" "\<not> blank (req_accessToken p)" "\<not> blank (req_message p)"
    and "\<not> invalid_mode (req_mode p)"
    and "req_scheduledTime p = Some s" "s \<noteq> []" "Date_parse s = Some t"
    and "now div 1000 < t div 1000" "0 \<le> now"
  shows "\<exists>call. fst (POST Response_error Date_parse now fetch (Some p)) = [call]
           \<and> map_of (bodyParams call) (js ''scheduled_publish_time'') = Some (String_of (t div 1000))
           \<and> map_of (bodyParams call) (js ''published'') = Some (js ''false'')"
proof -
  have rs: "resolve_schedule Date_parse now (req_scheduledTime p) = Inr (Some (t div 1000))"
    using assms(5-8) by (simp add: resolve_schedule_future)
  have "0 \<le> now div 1000"
    using assms(9) by simp
  then have nz: "t div 1000 \<noteq> 0"
    using assms(8) by linarith
  let ?call = "build_request (the (req_pageId p)) (the (req_accessToken p))
                 (the (req_message p)) (req_link p) (req_imageUrl p) (Some (t div 1000))"
  have "fst (POST Response_error Date_parse now fetch (Some p)) = [?call]"
    using assms(1-4) rs by (rule POST_forwards)
  moreover have "map_of (bodyParams ?call) (js ''scheduled_publish_time'') = Some (String_of (t div 1000))"
    using nz by (simp add: body_scheduled_publish_time)
  moreover have "map_of (bodyParams ?call) (js ''published'') = Some (js ''false'')"
    using nz by (simp add: body_published)
  ultimately show ?thesis by blast
qed

lemma POST_immediate_call:
  assumes "\<not> blank (req_pageId p)" "\<not> blank (req_accessToken p)" "\<not> blank (req_message p)"
    and "\<not> invalid_mode (req_mode p)"
    and "\<not> truthy (req_scheduledTime p)"
  shows "\<exists>call. fst (POST Response_error Date_parse now fetch (Some p)) = [call]
           \<and> map_of (bodyParams call) (js ''scheduled_publish_time'') = None
           \<and> map_of (bodyParams call) (js ''published'') =
               (if truthy (req_imageUrl p) then Some (js ''true'') else None)"
proof -
  have rs: "resolve_schedule Date_parse now (req_scheduledTime p) = Inr None"
    using assms(5) by (rule resolve_schedule_absent)
  let ?call = "build_request (the (req_pageId p)) (the (req_accessToken p))
                 (the (req_message p)) (req_link p) (req_imageUrl p) None"
  have "fst (POST Response_error Date_parse now fetch (Some p)) = [?call]"
    using assms(1-4) rs by (rule POST_forwards)
  moreover have "map_of (bodyParams ?call) (js ''scheduled_publish_time'') = None"
    by (simp add: body_scheduled_publish_time)
  moreover have "map_of (bodyParams ?call) (js ''published'') =
                   (if truthy (req_imageUrl p) then Some (js ''true'') else None)"
    by (simp add: body_published)
  ultimately show ?thesis by blast
qed

lemma example_request_not_blank:
  "\<not> blank (Some (js ''123''))" "\<not> blank (Some (js ''tok''))" "\<not> blank (Some (js ''hello''))"
  by (simp_all add: blank_def trim_def js_def is_white_space_def)

lemma example_request_forwarded:
  assumes "req_pageId p = Some (js ''123'')" "req_accessToken p = Some (js ''tok'')"
    "req_message p = Some (js ''hello'')" "\<not> invalid_mode (req_mode p)"
    "\<not> truthy (req_scheduledTime p)"
  shows "fst (POST Response_error Date_parse now fetch (Some p)) =
           [build_request (js ''123'') (js ''tok'') (js ''hello'') (req_link p) (req_imageUrl p) None]"
  using POST_forwards [where p = p and Response_error = Response_error and Date_parse = Date_parse
          and now = now and ts = None and fetch = fetch] assms
  by (simp add: example_request_not_blank resolve_schedule_absent)

subsection \<open>Required fields\<close>

text \<open>
  Claim C4. When \<open>pageId\<close>, \<open>accessToken\<close> or \<open>message\<close> is missing or blank after
  trimming (by \<open>blank_iff\<close>: undefined, or made of white space only, the empty string
  included), the relay answers 400 with "Missing required pageId, accessToken, or
  message." and makes no outbound call: the list of calls is empty.
\<close>

theorem relay_missing_fields:
  assumes "blank (req_pageId p) \<or> blank (req_accessToken p) \<or> blank (req_message p)"
  shows "POST Response_error Date_parse now fetch (Some p) =
           ([], \<lparr>res_status = 400,
                 res_body = ErrorBody (js ''Missing required pageId, accessToken, or message.'')\<rparr>)"
  using assms by (simp add: POST_def)

theorem relay_missing_fields_witness:
  "(blank (req_pageId (example_request\<lparr>req_message := Some [0x20, 0x9, 0xA0]\<rparr>))
      \<or> blank (req_accessToken (example_request\<lparr>req_message := Some [0x20, 0x9, 0xA0]\<rparr>))
      \<or> blank (req_message (example_request\<lparr>req_message := Some [0x20, 0x9, 0xA0]\<rparr>)))
   \<and> POST example_Response_error (\<lambda>s. None) 0 mock_upstream (Some (example_request\<lparr>req_message := Some [0x20, 0x9, 0xA0]\<rparr>)) =
       ([], \<lparr>res_status = 400,
             res_body = ErrorBody (js ''Missing required pageId, accessToken, or message.'')\<rparr>)"
proof -
  have h: "blank (req_pageId (example_request\<lparr>req_message := Some [0x20, 0x9, 0xA0]\<rparr>))
      \<or> blank (req_accessToken (example_request\<lparr>req_message := Some [0x20, 0x9, 0xA0]\<rparr>))
      \<or> blank (req_message (example_request\<lparr>req_message := Some [0x20, 0x9, 0xA0]\<rparr>))"
    by (simp add: blank_def trim_def is_white_space_def)
  show ?thesis
    using h relay_missing_fields [OF h, where Response_error = example_Response_error and Date_parse = "\<lambda>s. None" and now = 0 and fetch = mock_upstream]
    by simp
qed

subsection \<open>Validation of \<open>scheduledTime\<close>\<close>



subsection \<open>Scheduling fields of the forwarded body\<close>

text \<open>
  Claim C1. For a request with the required fields: (1) with \<open>mode = "schedule"\<close> and a
  \<open>scheduledTime\<close> that parses to a time value strictly in the future at the relay's second
  granularity, the request is forwarded and its body has \<open>scheduled_publish_time\<close> equal
  to \<open>String(Math.floor(parsed / 1000))\<close> and \<open>published = "false"\<close>; (2) an immediate feed
  post (no \<open>scheduledTime\<close>, no \<open>imageUrl\<close>) has neither field; (3) an immediate photo post
  (\<open>imageUrl\<close> present, no \<open>scheduledTime\<close>) has \<open>published = "true"\<close>. A field is present
  when it is a non-empty string, as the source's truthiness tests read it. The current
  time is taken to be at or after the epoch (\<open>0 \<le> now\<close>), so that a future timestamp is
  not \<open>0\<close>, which \<open>if (scheduleTimestamp)\<close> would read as absent.
\<close>

theorem relay_schedule_fields:
  assumes "\<not> blank (req_pageId p)" "\<not> blank (req_accessToken p)" "\<not> blank (req_message p)"
  shows "(req_mode p = Some (js ''schedule'') \<and> req_scheduledTime p = Some s \<and> s \<noteq> []
            \<and> Date_parse s = Some t \<and> now div 1000 < t div 1000 \<and> 0 \<le> now
          \<longrightarrow> (\<exists>call. fst (POST Response_error Date_parse now fetch (Some p)) = [call]
                 \<and> map_of (bodyParams call) (js ''scheduled_publish_time'') = Some (String_of (t div 1000))
                 \<and> map_of (bodyParams call) (js ''published'') = Some (js ''false'')))
       \<and> (\<not> invalid_mode (req_mode p) \<and> \<not> truthy (req_scheduledTime p) \<and> \<not> truthy (req_imageUrl p)
          \<longrightarrow> (\<exists>call. fst (POST Response_error Date_parse now fetch (Some p)) = [call]
                 \<and> map_of (bodyParams call) (js ''scheduled_publish_time'') = None
                 \<and> map_of (bodyParams call) (js ''published'') = None))
       \<and> (\<not> invalid_mode (req_mode p) \<and> \<not> truthy (req_scheduledTime p) \<and> truthy (req_imageUrl p)
          \<longrightarrow> (\<exists>call. fst (POST Response_error Date_parse now fetch (Some p)) = [call]
                 \<and> map_of (bodyParams call) (js ''published'') = Some (js ''true'')))"
proof (intro conjI impI)
  assume h: "req_mode p = Some (js ''schedule'') \<and> req_scheduledTime p = Some s \<and> s \<noteq> []
            \<and> Date_parse s = Some t \<and> now div 1000 < t div 1000 \<and> 0 \<le> now"
  then have nm: "\<not> invalid_mode (req_mode p)"
    by (simp add: invalid_mode_def)
  from h have a: "req_scheduledTime p = Some s" "s \<noteq> []" "Date_parse s = Some t"
      "now div 1000 < t div 1000" "0 \<le> now"
    by simp_all
  show "\<exists>call. fst (POST Response_error Date_parse now fetch (Some p)) = [call]
                 \<and> map_of (bodyParams call) (js ''scheduled_publish_time'') = Some (String_of (t div 1000))
                 \<and> map_of (bodyParams call) (js ''published'') = Some (js ''false'')"
    by (rule POST_scheduled_call [where Date_parse = Date_parse and s = s and t = t, OF assms nm a])
next
  assume h: "\<not> invalid_mode (req_mode p) \<and> \<not> truthy (req_scheduledTime p) \<and> \<not> truthy (req_imageUrl p)"
  with assms POST_immediate_call [where p = p and Response_error = Response_error
      and Date_parse = Date_parse and now = now and fetch = fetch]
  show "\<exists>call. fst (POST Response_error Date_parse now fetch (Some p)) = [call]
                 \<and> map_of (bodyParams call) (js ''scheduled_publish_time'') = None
                 \<and> map_of (bodyParams call) (js ''published'') = None"
    by simp
next
  assume h: "\<not> invalid_mode (req_mode p) \<and> \<not> truthy (req_scheduledTime p) \<and> truthy (req_imageUrl p)"
  with assms POST_immediate_call [where p = p and Response_error = Response_error
      and Date_parse = Date_parse and now = now and fetch = fetch]
  show "\<exists>call. fst (POST Response_error Date_parse now fetch (Some p)) = [call]
                 \<and> map_of (bodyParams call) (js ''published'') = Some (js ''true'')"
    by auto
qed

theorem relay_schedule_fields_witness:
  "(\<exists>call. fst (POST example_Response_error (\<lambda>s. Some 1893456000999) 1700000000000 mock_upstream
               (Some (example_request\<lparr>req_mode := Some (js ''schedule''),
                        req_scheduledTime := Some (js ''2030-01-01T00:00:00.999Z'')\<rparr>))) = [call]
      \<and> map_of (bodyParams call) (js ''scheduled_publish_time'') = Some (js ''1893456000'')
      \<and> map_of (bodyParams call) (js ''published'') = Some (js ''false''))
   \<and> (\<exists>call. fst (POST example_Response_error (\<lambda>s. None) 1700000000000 mock_upstream (Some example_request)) = [call]
      \<and> map_of (bodyParams call) (js ''scheduled_publish_time'') = None
      \<and> map_of (bodyParams call) (js ''published'') = None)
   \<and> (\<exists>call. fst (POST example_Response_error (\<lambda>s. None) 1700000000000 mock_upstream
               (Some (example_request\<lparr>req_imageUrl := Some (js ''https://cdn.example/a.png'')\<rparr>))) = [call]
      \<and> map_of (bodyParams call) (js ''published'') = Some (js ''true''))"
proof -
  let ?p = "example_request\<lparr>req_mode := Some (js ''schedule''),
              req_scheduledTime := Some (js ''2030-01-01T00:00:00.999Z'')\<rparr>"
  let ?r = "example_request\<lparr>req_imageUrl := Some (js ''https://cdn.example/a.png'')\<rparr>"
  have p: "\<not> blank (req_pageId ?p)" "\<not> blank (req_accessToken ?p)" "\<not> blank (req_message ?p)"
    by (simp_all add: example_request_def example_request_not_blank)
  have q: "\<not> blank (req_pageId example_request)" "\<not> blank (req_accessToken example_request)"
      "\<not> blank (req_message example_request)"
    by (simp_all add: example_request_def example_request_not_blank)
  have r: "\<not> blank (req_pageId ?r)" "\<not> blank (req_accessToken ?r)" "\<not> blank (req_message ?r)"
    by (simp_all add: example_request_def example_request_not_blank)
  have str: "String_of 1893456000 = js ''1893456000''"
    by (simp add: String_of_def digits.simps js_def)
  have ne: "js ''2030-01-01T00:00:00.999Z'' \<noteq> []" "js ''https://cdn.example/a.png'' \<noteq> []"
    by (simp_all add: js_def)
  have 1: "\<exists>call. fst (POST example_Response_error (\<lambda>s. Some 1893456000999) 1700000000000 mock_upstream (Some ?p)) = [call]
      \<and> map_of (bodyParams call) (js ''scheduled_publish_time'') = Some (js ''1893456000'')
      \<and> map_of (bodyParams call) (js ''published'') = Some (js ''false'')"
    using relay_schedule_fields [where Response_error = example_Response_error and Date_parse = "\<lambda>s. Some 1893456000999" and now = 1700000000000
            and fetch = mock_upstream and s = "js ''2030-01-01T00:00:00.999Z''"
            and t = 1893456000999, OF p] ne
    by (simp add: example_request_def str)
  have 2: "\<exists>call. fst (POST example_Response_error (\<lambda>s. None) 1700000000000 mock_upstream (Some example_request)) = [call]
      \<and> map_of (bodyParams call) (js ''scheduled_publish_time'') = None
      \<and> map_of (bodyParams call) (js ''published'') = None"
    using relay_schedule_fields [where Response_error = example_Response_error and Date_parse = "\<lambda>s. None" and now = 1700000000000
            and fetch = mock_upstream, OF q]
    by (simp add: example_request_def invalid_mode_def truthy_def)
  have 3: "\<exists>call. fst (POST example_Response_error (\<lambda>s. None) 1700000000000 mock_upstream (Some ?r)) = [call]
      \<and> map_of (bodyParams call) (js ''published'') = Some (js ''true'')"
    using relay_schedule_fields [where Response_error = example_Response_error and Date_parse = "\<lambda>s. None" and now = 1700000000000
            and fetch = mock_upstream, OF r] ne
    by (simp add: example_request_def invalid_mode_def truthy_def)
  from 1 2 3 show ?thesis by blast
qed

subsection \<open>Endpoint variant and the link field\<close>

text \<open>
  Claim C5. For a request the relay forwards: with a non-empty \<open>imageUrl\<close> the call targets
  the \<open>photos\<close> endpoint of the page and its body has no \<open>link\<close> field, whatever link was
  supplied; without one (undefined or empty) the call targets the \<open>feed\<close> endpoint and a
  supplied (non-empty) link is forwarded, trimmed.
\<close>

theorem relay_endpoint_choice:
  assumes "fst (POST Response_error Date_parse now fetch (Some p)) = [call]"
  shows "(truthy (req_imageUrl p) \<longrightarrow>
            (\<exists>pid. req_pageId p = Some pid
               \<and> targetUrl call = js ''https://graph.facebook.com/v19.0/'' @ pid @ js ''/photos'')
            \<and> map_of (bodyParams call) (js ''link'') = None)
       \<and> (\<not> truthy (req_imageUrl p) \<longrightarrow>
            (\<exists>pid. req_pageId p = Some pid
               \<and> targetUrl call = js ''https://graph.facebook.com/v19.0/'' @ pid @ js ''/feed'')
            \<and> (\<forall>l. req_link p = Some l \<and> l \<noteq> [] \<longrightarrow>
                   map_of (bodyParams call) (js ''link'') = Some (trim l)))"
proof -
  from POST_forwarded_cases [OF assms] obtain ts where
    nb: "\<not> blank (req_pageId p)" and
    c: "call = build_request (the (req_pageId p)) (the (req_accessToken p))
                 (the (req_message p)) (req_link p) (req_imageUrl p) ts"
    by auto
  from nb obtain pid where pid: "req_pageId p = Some pid"
    by (cases "req_pageId p") (simp_all add: blank_def)
  show ?thesis
    by (simp add: c pid target_of_build_request body_link truthy_def)
qed

theorem relay_endpoint_choice_witness:
  "fst (POST example_Response_error (\<lambda>s. None) 0 mock_upstream
          (Some (example_request\<lparr>req_link := Some (js '' https://example.com ''),
                                 req_imageUrl := Some (js ''https://cdn.example/a.png'')\<rparr>))) =
     [build_request (js ''123'') (js ''tok'') (js ''hello'') (Some (js '' https://example.com ''))
        (Some (js ''https://cdn.example/a.png'')) None]
   \<and> targetUrl (build_request (js ''123'') (js ''tok'') (js ''hello'') (Some (js '' https://example.com ''))
        (Some (js ''https://cdn.example/a.png'')) None) =
       js ''https://graph.facebook.com/v19.0/123/photos''
   \<and> map_of (bodyParams (build_request (js ''123'') (js ''tok'') (js ''hello'')
        (Some (js '' https://example.com '')) (Some (js ''https://cdn.example/a.png'')) None))
        (js ''link'') = None
   \<and> fst (POST example_Response_error (\<lambda>s. None) 0 mock_upstream
          (Some (example_request\<lparr>req_link := Some (js '' https://example.com '')\<rparr>))) =
     [build_request (js ''123'') (js ''tok'') (js ''hello'') (Some (js '' https://example.com ''))
        None None]
   \<and> targetUrl (build_request (js ''123'') (js ''tok'') (js ''hello'') (Some (js '' https://example.com ''))
        None None) =
       js ''https://graph.facebook.com/v19.0/123/feed''
   \<and> map_of (bodyParams (build_request (js ''123'') (js ''tok'') (js ''hello'')
        (Some (js '' https://example.com '')) None None))
        (js ''link'') = Some (js ''https://example.com'')"
proof -
  let ?photo = "example_request\<lparr>req_link := Some (js '' https://example.com ''),
                                 req_imageUrl := Some (js ''https://cdn.example/a.png'')\<rparr>"
  let ?feed = "example_request\<lparr>req_link := Some (js '' https://example.com '')\<rparr>"
  have h1: "fst (POST example_Response_error (\<lambda>s. None) 0 mock_upstream (Some ?photo)) =
     [build_request (js ''123'') (js ''tok'') (js ''hello'') (Some (js '' https://example.com ''))
        (Some (js ''https://cdn.example/a.png'')) None]"
    using example_request_forwarded [where p = ?photo and Response_error = example_Response_error
            and Date_parse = "\<lambda>s. None" and now = 0 and fetch = mock_upstream]
    by (simp add: example_request_def invalid_mode_def truthy_def)
  have h2: "fst (POST example_Response_error (\<lambda>s. None) 0 mock_upstream (Some ?feed)) =
     [build_request (js ''123'') (js ''tok'') (js ''hello'') (Some (js '' https://example.com ''))
        None None]"
    using example_request_forwarded [where p = ?feed and Response_error = example_Response_error
            and Date_parse = "\<lambda>s. None" and now = 0 and fetch = mock_upstream]
    by (simp add: example_request_def invalid_mode_def truthy_def)
  have ne: "js '' https://example.com '' \<noteq> []" "js ''https://cdn.example/a.png'' \<noteq> []"
    by (simp_all add: js_def)
  have cat: "js ''https://graph.facebook.com/v19.0/'' @ js ''123'' @ js ''/photos'' =
               js ''https://graph.facebook.com/v19.0/123/photos''"
       "js ''https://graph.facebook.com/v19.0/'' @ js ''123'' @ js ''/feed'' =
               js ''https://graph.facebook.com/v19.0/123/feed''"
    by (simp_all add: js_def)
  have tr: "trim (js '' https://example.com '') = js ''https://example.com''"
    by (simp add: trim_def js_def is_white_space_def)
  have 1: "targetUrl (build_request (js ''123'') (js ''tok'') (js ''hello'') (Some (js '' https://example.com ''))
        (Some (js ''https://cdn.example/a.png'')) None) =
       js ''https://graph.facebook.com/v19.0/123/photos''
   \<and> map_of (bodyParams (build_request (js ''123'') (js ''tok'') (js ''hello'')
        (Some (js '' https://example.com '')) (Some (js ''https://cdn.example/a.png'')) None))
        (js ''link'') = None"
    using relay_endpoint_choice [OF h1] ne
    by (simp add: example_request_def truthy_def cat)
  have 2: "targetUrl (build_request (js ''123'') (js ''tok'') (js ''hello'') (Some (js '' https://example.com ''))
        None None) =
       js ''https://graph.facebook.com/v19.0/123/feed''
   \<and> map_of (bodyParams (build_request (js ''123'') (js ''tok'') (js ''hello'')
        (Some (js '' https://example.com '')) None None))
        (js ''link'') = Some (js ''https://example.com'')"
    using relay_endpoint_choice [OF h2] ne
    by (simp add: example_request_def truthy_def cat tr)
  from h1 h2 1 2 show ?thesis by simp
qed

subsection \<open>Mapping of the upstream response\<close>

text \<open>
  For a forwarded request whose \<open>fetch\<close> resolves with response \<open>r\<close>: the relay returns
  \<open>{id}\<close> with status 200 exactly when \<open>r\<close> is successful (\<open>response.ok\<close>) and its decoded
  body has an identifier (a non-empty \<open>id\<close>, as \<open>!json.id\<close> reads it), and then the
  identifier is the upstream's. In every other case, a body that is empty or not JSON
  included, and provided \<open>NextResponse.json\<close> accepts the status, it returns \<open>{error}\<close>
  whose message is the upstream \<open>error\<close> when that is a string, else its \<open>message\<close> field
  when present, else "Meta API error.", with the upstream status, or 500 when that
  status is zero.
\<close>

lemma relay_upstream_accepted:
  assumes "fst (POST Response_error Date_parse now fetch rq) = [call]" and "fetch call = Resolved r"
  shows "((\<exists>i. snd (POST Response_error Date_parse now fetch rq) = \<lparr>res_status = 200, res_body = IdBody i\<rparr>)
            \<longleftrightarrow> up_ok r \<and> (\<exists>j i. up_json r = Some j \<and> g_id j = Some i \<and> i \<noteq> []))
       \<and> (\<forall>j i. up_ok r \<and> up_json r = Some j \<and> g_id j = Some i \<and> i \<noteq> [] \<longrightarrow>
             snd (POST Response_error Date_parse now fetch rq) = \<lparr>res_status = 200, res_body = IdBody i\<rparr>)
       \<and> (\<not> (up_ok r \<and> (\<exists>j i. up_json r = Some j \<and> g_id j = Some i \<and> i \<noteq> []))
            \<and> \<not> rejects_status (if up_status r = 0 then 500 else up_status r) \<longrightarrow>
             snd (POST Response_error Date_parse now fetch rq) =
               \<lparr>res_status = (if up_status r = 0 then 500 else up_status r),
                res_body = ErrorBody
                  (case (case up_json r of None \<Rightarrow> None | Some j \<Rightarrow> g_error j) of
                     Some (ErrorString s) \<Rightarrow> s
                   | Some (ErrorObject (Some m)) \<Rightarrow> m
                   | _ \<Rightarrow> js ''Meta API error.'')\<rparr>)"
proof -
  let ?res = "case map_upstream Response_error r of Inr result \<Rightarrow> result | Inl err \<Rightarrow> POST_catch err"
  have resp: "snd (POST Response_error Date_parse now fetch rq) = ?res"
    using assms by (rule POST_response)
  have ok: "?res = \<lparr>res_status = 200, res_body = IdBody i\<rparr>"
    if "up_ok r" "up_json r = Some j" "g_id j = Some i" "i \<noteq> []" for j i
    using that
    by (simp add: map_upstream_def truthy_def NextResponse_json_def rejects_status_def)
  have err: "\<exists>st m. ?res = \<lparr>res_status = st, res_body = ErrorBody m\<rparr>"
    if "\<not> (up_ok r \<and> (\<exists>j i. up_json r = Some j \<and> g_id j = Some i \<and> i \<noteq> []))"
    using that
    by (auto simp: map_upstream_def truthy_def Let_def NextResponse_json_def POST_catch_def
             split: option.splits)
  have bad: "?res =
               \<lparr>res_status = (if up_status r = 0 then 500 else up_status r),
                res_body = ErrorBody
                  (case (case up_json r of None \<Rightarrow> None | Some j \<Rightarrow> g_error j) of
                     Some (ErrorString s) \<Rightarrow> s
                   | Some (ErrorObject (Some m)) \<Rightarrow> m
                   | _ \<Rightarrow> js ''Meta API error.'')\<rparr>"
    if "\<not> (up_ok r \<and> (\<exists>j i. up_json r = Some j \<and> g_id j = Some i \<and> i \<noteq> []))"
      and "\<not> rejects_status (if up_status r = 0 then 500 else up_status r)"
    using that
    by (auto simp: map_upstream_def truthy_def Let_def NextResponse_json_def
             split: option.splits graph_error.splits)
  show ?thesis
    unfolding resp
  proof (intro conjI)
    show "(\<exists>i. ?res = \<lparr>res_status = 200, res_body = IdBody i\<rparr>) \<longleftrightarrow> up_ok r \<and> (\<exists>j i. up_json r = Some j \<and> g_id j = Some i \<and> i \<noteq> [])"
    proof
      assume "\<exists>i. ?res = \<lparr>res_status = 200, res_body = IdBody i\<rparr>"
      then obtain i where e: "?res = \<lparr>res_status = 200, res_body = IdBody i\<rparr>" ..
      show "up_ok r \<and> (\<exists>j i. up_json r = Some j \<and> g_id j = Some i \<and> i \<noteq> [])"
      proof (rule ccontr)
        assume n: "\<not> (up_ok r \<and> (\<exists>j i. up_json r = Some j \<and> g_id j = Some i \<and> i \<noteq> []))"
        from err [OF n] obtain st m where "?res = \<lparr>res_status = st, res_body = ErrorBody m\<rparr>"
          by blast
        with e show False by simp
      qed
    next
      assume "up_ok r \<and> (\<exists>j i. up_json r = Some j \<and> g_id j = Some i \<and> i \<noteq> [])"
      then obtain j i where "up_ok r" "up_json r = Some j" "g_id j = Some i" "i \<noteq> []"
        by blast
      then have "?res = \<lparr>res_status = 200, res_body = IdBody i\<rparr>"
        by (rule ok)
      then show "\<exists>i. ?res = \<lparr>res_status = 200, res_body = IdBody i\<rparr>" ..
    qed
    show "\<forall>j i. up_ok r \<and> up_json r = Some j \<and> g_id j = Some i \<and> i \<noteq> [] \<longrightarrow>
             ?res = \<lparr>res_status = 200, res_body = IdBody i\<rparr>"
      using ok by blast
    show "\<not> (up_ok r \<and> (\<exists>j i. up_json r = Some j \<and> g_id j = Some i \<and> i \<noteq> []))
            \<and> \<not> rejects_status (if up_status r = 0 then 500 else up_status r) \<longrightarrow>
             ?res =
               \<lparr>res_status = (if up_status r = 0 then 500 else up_status r),
                res_body = ErrorBody
                  (case (case up_json r of None \<Rightarrow> None | Some j \<Rightarrow> g_error j) of
                     Some (ErrorString s) \<Rightarrow> s
                   | Some (ErrorObject (Some m)) \<Rightarrow> m
                   | _ \<Rightarrow> js ''Meta API error.'')\<rparr>"
      using bad by blast
  qed
qed

text \<open>
  When \<open>NextResponse.json\<close> refuses the upstream status, the call of lines 99-102 throws
  inside the \<open>try\<close> and the \<open>catch\<close> answers 500 with the constructor's message.
\<close>

lemma relay_upstream_rejected:
  assumes "fst (POST Response_error Date_parse now fetch rq) = [call]" and "fetch call = Resolved r"
    and "\<not> (up_ok r \<and> (\<exists>j i. up_json r = Some j \<and> g_id j = Some i \<and> i \<noteq> []))"
    and "rejects_status (if up_status r = 0 then 500 else up_status r)"
  shows "snd (POST Response_error Date_parse now fetch rq) = \<lparr>res_status = 500, res_body = ErrorBody (Response_error (up_status r))\<rparr>"
proof -
  have resp: "snd (POST Response_error Date_parse now fetch rq) =
      (case map_upstream Response_error r of Inr result \<Rightarrow> result | Inl err \<Rightarrow> POST_catch err)"
    using assms(1,2) by (rule POST_response)
  have "\<not> rejects_status 500"
    by (simp add: rejects_status_def)
  with assms(4) have st: "up_status r \<noteq> 0" "rejects_status (up_status r)"
    by (auto split: if_splits)
  show ?thesis
    unfolding resp using assms(3) st
    by (auto simp: map_upstream_def truthy_def Let_def NextResponse_json_def POST_catch_def
             split: option.splits)
qed

lemma relay_upstream_examples:
  "snd (POST example_Response_error (\<lambda>s. None) 0 mock_upstream (Some example_request)) =
     \<lparr>res_status = 200, res_body = IdBody (js ''999'')\<rparr>"
  "snd (POST example_Response_error (\<lambda>s. None) 0 mock_upstream_error (Some example_request)) =
     \<lparr>res_status = 400, res_body = ErrorBody (js ''Invalid OAuth access token.'')\<rparr>"
  "snd (POST example_Response_error (\<lambda>s. None) 0 mock_upstream_empty (Some example_request)) =
     \<lparr>res_status = 500, res_body = ErrorBody (js ''Meta API error.'')\<rparr>"
proof -
  let ?call = "build_request (js ''123'') (js ''tok'') (js ''hello'') None None None"
  have fw: "fst (POST example_Response_error (\<lambda>s. None) 0 fetch (Some example_request)) = [?call]"
    for fetch
    using example_request_forwarded [where p = example_request
            and Response_error = example_Response_error and Date_parse = "\<lambda>s. None"
            and now = 0 and fetch = fetch]
    by (simp add: example_request_def invalid_mode_def truthy_def)
  have ne: "js ''999'' \<noteq> []"
    by (simp add: js_def)
  show "snd (POST example_Response_error (\<lambda>s. None) 0 mock_upstream (Some example_request)) =
     \<lparr>res_status = 200, res_body = IdBody (js ''999'')\<rparr>"
    using relay_upstream_accepted [OF fw [of mock_upstream], where r =
            "\<lparr>up_ok = True, up_status = 200,
               up_json = Some \<lparr>g_id = Some (js ''999''), g_error = None\<rparr>\<rparr>"] ne
    by (simp add: mock_upstream_def)
  show "snd (POST example_Response_error (\<lambda>s. None) 0 mock_upstream_error (Some example_request)) =
     \<lparr>res_status = 400, res_body = ErrorBody (js ''Invalid OAuth access token.'')\<rparr>"
    using relay_upstream_accepted [OF fw [of mock_upstream_error], where r =
            "\<lparr>up_ok = False, up_status = 400,
               up_json = Some \<lparr>g_id = None,
                                g_error = Some (ErrorObject (Some (js ''Invalid OAuth access token.'')))\<rparr>\<rparr>"]
    by (simp add: mock_upstream_error_def rejects_status_def)
  show "snd (POST example_Response_error (\<lambda>s. None) 0 mock_upstream_empty (Some example_request)) =
     \<lparr>res_status = 500, res_body = ErrorBody (js ''Meta API error.'')\<rparr>"
    using relay_upstream_accepted [OF fw [of mock_upstream_empty], where r =
            "\<lparr>up_ok = False, up_status = 0, up_json = None\<rparr>"]
    by (simp add: mock_upstream_empty_def rejects_status_def)
qed

text \<open>
  Claim C3. The claim gives every failure the upstream HTTP status. The handler does
  write \<open>status: response.status || 500\<close>, but for a status that \<open>NextResponse.json\<close>
  refuses the response is never built. Here the upstream answers 204 with no body to
  the forwarded example request: \<open>response.json()\<close> rejects, the decoded body is \<open>{}\<close>,
  the failure branch calls \<open>NextResponse.json({error: "Meta API error."}, {status: 204})\<close>,
  which throws, and the relay answers 500 with the constructor's message, where the
  claim gives status 204 and "Meta API error.".
\<close>

theorem relay_upstream_null_body_status:
  "POST example_Response_error example_Date_parse 0 mock_upstream_no_content (Some example_request) =
     ([build_request (js ''123'') (js ''tok'') (js ''hello'') None None None],
      \<lparr>res_status = 500,
       res_body = ErrorBody (js ''Response constructor: Invalid response status code 204'')\<rparr>)"
proof -
  let ?call = "build_request (js ''123'') (js ''tok'') (js ''hello'') None None None"
  let ?r = "\<lparr>up_ok = True, up_status = 204, up_json = None\<rparr>"
  have fw: "fst (POST example_Response_error example_Date_parse 0 mock_upstream_no_content
                   (Some example_request)) = [?call]"
    using example_request_forwarded [where p = example_request
            and Response_error = example_Response_error and Date_parse = example_Date_parse
            and now = 0 and fetch = mock_upstream_no_content]
    by (simp add: example_request_def invalid_mode_def truthy_def)
  have r: "mock_upstream_no_content ?call = Resolved ?r"
    by (simp add: mock_upstream_no_content_def)
  have msg: "example_Response_error 204 =
               js ''Response constructor: Invalid response status code 204''"
    by (simp add: example_Response_error_def String_of_def digits.simps js_def)
  have "snd (POST example_Response_error example_Date_parse 0 mock_upstream_no_content
               (Some example_request)) =
          \<lparr>res_status = 500, res_body = ErrorBody (example_Response_error (up_status ?r))\<rparr>"
    using fw r by (rule relay_upstream_rejected) (simp_all add: rejects_status_def)
  then have "snd (POST example_Response_error example_Date_parse 0 mock_upstream_no_content
               (Some example_request)) =
          \<lparr>res_status = 500,
           res_body = ErrorBody (js ''Response constructor: Invalid response status code 204'')\<rparr>"
    by (simp add: msg)
  with fw show ?thesis
    by (simp add: prod_eq_iff)
qed

subsection \<open>The mode field\<close>

text \<open>
  Claim C10. The request construction does not depend on \<open>mode\<close>: (1) two requests that
  differ only in \<open>mode\<close>, both modes passing the check of line 36, give the same outbound
  calls and the same response; (2) the only use of \<open>mode\<close> is that check: a request with
  the required fields and a mode that fails it is answered 400 "Invalid mode provided.";
  (3) with \<open>mode\<close> absent or \<open>"now"\<close>, a request with the required fields and a
  \<open>scheduledTime\<close> in the future (whole seconds, clock at or after the epoch) is still
  forwarded with \<open>scheduled_publish_time\<close> and \<open>published = "false"\<close>.
\<close>

theorem relay_mode_independent:
  "(\<not> invalid_mode m \<and> \<not> invalid_mode m' \<longrightarrow>
      POST Response_error Date_parse now fetch (Some (p\<lparr>req_mode := m\<rparr>)) =
      POST Response_error Date_parse now fetch (Some (p\<lparr>req_mode := m'\<rparr>)))
   \<and> (\<not> blank (req_pageId p) \<and> \<not> blank (req_accessToken p) \<and> \<not> blank (req_message p)
        \<and> invalid_mode m \<longrightarrow>
      POST Response_error Date_parse now fetch (Some (p\<lparr>req_mode := m\<rparr>)) =
        ([], \<lparr>res_status = 400, res_body = ErrorBody (js ''Invalid mode provided.'')\<rparr>))
   \<and> (\<not> blank (req_pageId p) \<and> \<not> blank (req_accessToken p) \<and> \<not> blank (req_message p)
        \<and> (m = None \<or> m = Some (js ''now''))
        \<and> req_scheduledTime p = Some s \<and> s \<noteq> [] \<and> Date_parse s = Some t
        \<and> now div 1000 < t div 1000 \<and> 0 \<le> now \<longrightarrow>
      (\<exists>call. fst (POST Response_error Date_parse now fetch (Some (p\<lparr>req_mode := m\<rparr>))) = [call]
         \<and> map_of (bodyParams call) (js ''scheduled_publish_time'') = Some (String_of (t div 1000))
         \<and> map_of (bodyParams call) (js ''published'') = Some (js ''false'')))"
proof (intro conjI impI)
  assume "\<not> invalid_mode m \<and> \<not> invalid_mode m'"
  then show "POST Response_error Date_parse now fetch (Some (p\<lparr>req_mode := m\<rparr>)) =
      POST Response_error Date_parse now fetch (Some (p\<lparr>req_mode := m'\<rparr>))"
    by (simp add: POST_def Let_def split: sum.split)
next
  assume "\<not> blank (req_pageId p) \<and> \<not> blank (req_accessToken p) \<and> \<not> blank (req_message p)
        \<and> invalid_mode m"
  then show "POST Response_error Date_parse now fetch (Some (p\<lparr>req_mode := m\<rparr>)) =
        ([], \<lparr>res_status = 400, res_body = ErrorBody (js ''Invalid mode provided.'')\<rparr>)"
    by (simp add: POST_def)
next
  assume h: "\<not> blank (req_pageId p) \<and> \<not> blank (req_accessToken p) \<and> \<not> blank (req_message p)
        \<and> (m = None \<or> m = Some (js ''now''))
        \<and> req_scheduledTime p = Some s \<and> s \<noteq> [] \<and> Date_parse s = Some t
        \<and> now div 1000 < t div 1000 \<and> 0 \<le> now"
  let ?p = "p\<lparr>req_mode := m\<rparr>"
  from h have a: "\<not> blank (req_pageId ?p)" "\<not> blank (req_accessToken ?p)"
      "\<not> blank (req_message ?p)" "\<not> invalid_mode (req_mode ?p)"
      "req_scheduledTime ?p = Some s" "s \<noteq> []" "Date_parse s = Some t"
      "now div 1000 < t div 1000" "0 \<le> now"
    by (auto simp: invalid_mode_def truthy_def)
  show "\<exists>call. fst (POST Response_error Date_parse now fetch (Some ?p)) = [call]
         \<and> map_of (bodyParams call) (js ''scheduled_publish_time'') = Some (String_of (t div 1000))
         \<and> map_of (bodyParams call) (js ''published'') = Some (js ''false'')"
    by (rule POST_scheduled_call [where Date_parse = Date_parse and s = s and t = t, OF a])
qed

theorem relay_mode_independent_witness:
  "POST example_Response_error (\<lambda>s. Some 1893456000999) 1700000000000 mock_upstream
     (Some (example_request\<lparr>req_scheduledTime := Some (js ''2030-01-01T00:00:00.999Z''),
                            req_mode := None\<rparr>)) =
   POST example_Response_error (\<lambda>s. Some 1893456000999) 1700000000000 mock_upstream
     (Some (example_request\<lparr>req_scheduledTime := Some (js ''2030-01-01T00:00:00.999Z''),
                            req_mode := Some (js ''schedule'')\<rparr>))
   \<and> POST example_Response_error (\<lambda>s. None) 0 mock_upstream (Some (example_request\<lparr>req_mode := Some (js ''later'')\<rparr>)) =
       ([], \<lparr>res_status = 400, res_body = ErrorBody (js ''Invalid mode provided.'')\<rparr>)
   \<and> (\<exists>call. fst (POST example_Response_error (\<lambda>s. Some 1893456000999) 1700000000000 mock_upstream
                (Some (example_request\<lparr>req_scheduledTime := Some (js ''2030-01-01T00:00:00.999Z''),
                                       req_mode := Some (js ''now'')\<rparr>))) = [call]
         \<and> map_of (bodyParams call) (js ''scheduled_publish_time'') = Some (js ''1893456000'')
         \<and> map_of (bodyParams call) (js ''published'') = Some (js ''false''))"
proof -
  let ?p = "example_request\<lparr>req_scheduledTime := Some (js ''2030-01-01T00:00:00.999Z'')\<rparr>"
  have inv: "invalid_mode (Some (js ''later''))" "\<not> invalid_mode None"
      "\<not> invalid_mode (Some (js ''schedule''))"
    by (simp_all add: invalid_mode_def truthy_def js_def)
  have ne: "js ''2030-01-01T00:00:00.999Z'' \<noteq> []"
    by (simp add: js_def)
  have str: "String_of 1893456000 = js ''1893456000''"
    by (simp add: String_of_def digits.simps js_def)
  have 1: "POST example_Response_error (\<lambda>s. Some 1893456000999) 1700000000000 mock_upstream (Some (?p\<lparr>req_mode := None\<rparr>)) =
           POST example_Response_error (\<lambda>s. Some 1893456000999) 1700000000000 mock_upstream
             (Some (?p\<lparr>req_mode := Some (js ''schedule'')\<rparr>))"
    using relay_mode_independent [where m = None and m' = "Some (js ''schedule'')"
            and Response_error = example_Response_error
            and Date_parse = "\<lambda>s. Some 1893456000999" and now = 1700000000000
            and fetch = mock_upstream and p = ?p] inv
    by simp
  have 2: "POST example_Response_error (\<lambda>s. None) 0 mock_upstream (Some (example_request\<lparr>req_mode := Some (js ''later'')\<rparr>)) =
       ([], \<lparr>res_status = 400, res_body = ErrorBody (js ''Invalid mode provided.'')\<rparr>)"
    using relay_mode_independent [where m = "Some (js ''later'')" and m' = None
            and Response_error = example_Response_error
            and Date_parse = "\<lambda>s. None" and now = 0 and fetch = mock_upstream
            and p = example_request] inv
    by (simp add: example_request_def example_request_not_blank)
  have 3: "\<exists>call. fst (POST example_Response_error (\<lambda>s. Some 1893456000999) 1700000000000 mock_upstream
                (Some (?p\<lparr>req_mode := Some (js ''now'')\<rparr>))) = [call]
         \<and> map_of (bodyParams call) (js ''scheduled_publish_time'') = Some (js ''1893456000'')
         \<and> map_of (bodyParams call) (js ''published'') = Some (js ''false'')"
    using relay_mode_independent [where m = "Some (js ''now'')" and m' = None
            and Response_error = example_Response_error
            and Date_parse = "\<lambda>s. Some 1893456000999" and now = 1700000000000
            and fetch = mock_upstream and p = ?p and s = "js ''2030-01-01T00:00:00.999Z''"
            and t = 1893456000999] ne
    by (simp add: example_request_def example_request_not_blank str)
  from 1 2 3 show ?thesis by simp
qed

subsection \<open>The example of the specification and boundary cases\<close>

text \<open>
  The request \<open>{pageId: "123", accessToken: "tok", message: "hello", mode: "now"}\<close> is
  forwarded to the feed endpoint with \<open>access_token=tok&message=hello\<close> and no
  \<open>published\<close> field; an upstream answering 200 with \<open>{id: "999"}\<close> gives \<open>{id: "999"}\<close>
  with status 200.
\<close>

lemma relay_example_now:
  "POST Response_error Date_parse now mock_upstream (Some example_request) =
     ([\<lparr>targetUrl = js ''https://graph.facebook.com/v19.0/123/feed'',
        bodyParams = [(js ''access_token'', js ''tok''), (js ''message'', js ''hello'')]\<rparr>],
      \<lparr>res_status = 200, res_body = IdBody (js ''999'')\<rparr>)"
proof -
  have tr: "trim (js ''tok'') = js ''tok''" "trim (js ''hello'') = js ''hello''"
    by (simp_all add: trim_def js_def is_white_space_def)
  have url: "js ''https://graph.facebook.com/'' @ js ''v19.0'' @ js ''/'' @ js ''123'' @ js ''/'' @ js ''feed''
               = js ''https://graph.facebook.com/v19.0/123/feed''"
    by (simp add: js_def)
  have ne: "js ''999'' \<noteq> []"
    by (simp add: js_def)
  show ?thesis
    using ne
    by (simp add: POST_def example_request_def example_request_not_blank invalid_mode_def
          resolve_schedule_def truthy_def build_request_def META_API_VERSION_def Let_def
          mock_upstream_def map_upstream_def NextResponse_json_def rejects_status_def tr url)
qed

text \<open>
  Where the truthiness tests of the source decide: an empty \<open>scheduledTime\<close> is handled
  as an absent one; an empty upstream \<open>id\<close> is handled as a missing one; a timestamp of
  \<open>0\<close> seconds, which passes validation only when the clock is before the epoch, gives
  no scheduling field. A time later than the clock but within the same second is
  rejected.
\<close>

lemma relay_empty_scheduledTime:
  "POST Response_error Date_parse now fetch (Some (p\<lparr>req_scheduledTime := Some []\<rparr>)) =
   POST Response_error Date_parse now fetch (Some (p\<lparr>req_scheduledTime := None\<rparr>))"
  by (simp add: POST_def resolve_schedule_def truthy_def)

lemma relay_empty_id:
  "map_upstream Response_error \<lparr>up_ok = True, up_status = 200,
                  up_json = Some \<lparr>g_id = Some [], g_error = None\<rparr>\<rparr> =
     Inr \<lparr>res_status = 200, res_body = ErrorBody (js ''Meta API error.'')\<rparr>"
  by (simp add: map_upstream_def truthy_def NextResponse_json_def rejects_status_def)

lemma relay_zero_timestamp_resolved:
  "resolve_schedule (\<lambda>s. Some 500) (- 1) (Some (js ''1970-01-01T00:00:00.500Z'')) = Inr (Some 0)"
proof -
  have "js ''1970-01-01T00:00:00.500Z'' \<noteq> []"
    by (simp add: js_def)
  then show ?thesis
    by (simp add: resolve_schedule_def truthy_def)
qed

lemma relay_zero_timestamp_body:
  "map_of (bodyParams (build_request pid tok msg l img (Some 0))) (js ''scheduled_publish_time'') = None"
  by (simp add: body_scheduled_publish_time)

lemma relay_same_second:
  "POST example_Response_error (\<lambda>s. Some 1000900) 1000500 fetch
     (Some (example_request\<lparr>req_scheduledTime := Some (js ''1970-01-01T00:16:40.900Z'')\<rparr>)) =
     ([], \<lparr>res_status = 400, res_body = ErrorBody (js ''scheduledTime must be in the future.'')\<rparr>)"
proof -
  have ne: "js ''1970-01-01T00:16:40.900Z'' \<noteq> []"
    by (simp add: js_def)
  show ?thesis
    using ne
    by (simp add: POST_def example_request_def example_request_not_blank invalid_mode_def
          resolve_schedule_def truthy_def Let_def)
qed

section \<open>Properties of the dashboard controller\<close>

subsection \<open>Auxiliary facts\<close>

lemma template_filter_other:
  "filter (\<lambda>t. tpl_name t = a) (filter (\<lambda>t. tpl_name t \<noteq> a) ts) = []"
  by (induction ts) simp_all

lemma enqueuePost_rejects_blank:
  assumes "trim (pageId s) = [] \<or> trim (accessToken s) = [] \<or> trim (message s) = []"
  shows "queue (fst (enqueuePost new_id created s)) = queue s"
    and "snd (enqueuePost new_id created s) = None"
  using assms by (auto simp: enqueuePost_def)

lemma enqueuePost_rejects_memo:
  assumes "mode s = Schedule" "\<not> canSchedule s"
  shows "queue (fst (enqueuePost new_id created s)) = queue s"
    and "snd (enqueuePost new_id created s) = None"
  using assms by (auto simp: enqueuePost_def)

lemma enqueuePost_accepts:
  assumes "trim (pageId s) \<noteq> []" "trim (accessToken s) \<noteq> []" "trim (message s) \<noteq> []"
    and "mode s = Schedule \<longrightarrow> canSchedule s"
  shows "queue (fst (enqueuePost new_id created s)) =
           \<lparr>q_id = new_id, q_message = trim (message s), q_link = trim_or_undefined (link s),
            q_imageUrl = trim_or_undefined (imageUrl s), q_mode = mode s,
            q_scheduledTime = (if mode s = Schedule then Some (scheduledTime s) else None),
            q_createdAt = created, q_status = Pending, q_response = None\<rparr> # queue s"
    and "snd (enqueuePost new_id created s) =
           Some (new_id, \<lparr>p_pageId = trim (pageId s), p_accessToken = trim (accessToken s),
                          p_message = trim (message s), p_link = trim_or_undefined (link s),
                          p_imageUrl = trim_or_undefined (imageUrl s),
                          p_scheduledTime = (if mode s = Schedule then Some (scheduledTime s) else None),
                          p_mode = mode s\<rparr>)"
  using assms by (auto simp: enqueuePost_def Let_def)

lemma render_keeps_memo:
  assumes "canSchedule_deps s = (mode s, scheduledTime s)"
  shows "canSchedule (render parseISO now s) = canSchedule s"
  using assms by (simp add: render_def)

subsection \<open>Resolution of a queue entry\<close>

text \<open>
  Claim C7. When the relay call of the entry \<open>qid\<close> settles, the queue keeps its length
  and order; every entry whose id is \<open>qid\<close> gets status success or error (by
  \<open>result.ok\<close>) and the response payload, its other fields unchanged; every other entry
  is unchanged; and if no entry has that id the queue is unchanged. The update is a
  total function of the queue, so there is no error case.
\<close>

theorem settle_frame:
  "length (queue (settle qid result s)) = length (queue s)
   \<and> (\<forall>i<length (queue s).
        (q_id (queue s ! i) = qid \<longrightarrow>
           queue (settle qid result s) ! i =
             (queue s ! i)\<lparr>q_status := (if result_ok result then Success else Failure),
                             q_response := Some (result_data result)\<rparr>)
      \<and> (q_id (queue s ! i) \<noteq> qid \<longrightarrow> queue (settle qid result s) ! i = queue s ! i))
   \<and> (qid \<notin> q_id ` set (queue s) \<longrightarrow> queue (settle qid result s) = queue s)"
proof (intro conjI allI impI)
  show "length (queue (settle qid result s)) = length (queue s)"
    by (simp add: settle_def)
next
  fix i assume "i < length (queue s)" "q_id (queue s ! i) = qid"
  then show "queue (settle qid result s) ! i =
             (queue s ! i)\<lparr>q_status := (if result_ok result then Success else Failure),
                             q_response := Some (result_data result)\<rparr>"
    by (simp add: settle_def)
next
  fix i assume "i < length (queue s)" "q_id (queue s ! i) \<noteq> qid"
  then show "queue (settle qid result s) ! i = queue s ! i"
    by (simp add: settle_def)
next
  assume "qid \<notin> q_id ` set (queue s)"
  then have "map (\<lambda>post. if q_id post = qid
                         then post\<lparr>q_status := (if result_ok result then Success else Failure),
                                   q_response := Some (result_data result)\<rparr>
                         else post) (queue s) = queue s"
    by (intro map_idI) auto
  then show "queue (settle qid result s) = queue s"
    by (simp add: settle_def)
qed

theorem settle_frame_witness:
  "q_status (queue (settle (js ''a'') example_result
               ((initial_state [])\<lparr>queue := example_queue\<rparr>)) ! 1) = Success
   \<and> q_response (queue (settle (js ''a'') example_result
               ((initial_state [])\<lparr>queue := example_queue\<rparr>)) ! 1) =
       Some \<lparr>data_id = Some (js ''999''), data_error = None\<rparr>
   \<and> queue (settle (js ''a'') example_result ((initial_state [])\<lparr>queue := example_queue\<rparr>)) ! 0 =
       example_queue ! 0
   \<and> queue (settle (js ''gone'') example_result ((initial_state [])\<lparr>queue := example_queue\<rparr>)) =
       example_queue"
proof -
  let ?s = "(initial_state [])\<lparr>queue := example_queue\<rparr>"
  have q: "queue ?s = example_queue"
    by simp
  have ids: "q_id (example_queue ! 0) = js ''b''" "q_id (example_queue ! 1) = js ''a''"
      "length example_queue = 2" "q_id ` set example_queue = {js ''a'', js ''b''}"
    by (auto simp: example_queue_def)
  have ne: "js ''b'' \<noteq> js ''a''" "js ''gone'' \<noteq> js ''a''" "js ''gone'' \<noteq> js ''b''"
    by (simp_all add: js_inject)
  note F = settle_frame [of "js ''a''" example_result ?s]
  note G = settle_frame [of "js ''gone''" example_result ?s]
  have 1: "queue (settle (js ''a'') example_result ?s) ! 1 =
             (example_queue ! 1)\<lparr>q_status := Success,
                                  q_response := Some \<lparr>data_id = Some (js ''999''), data_error = None\<rparr>\<rparr>"
    using F [THEN conjunct2, THEN conjunct1, rule_format, of 1] ids
    by (simp add: example_result_def)
  have 0: "queue (settle (js ''a'') example_result ?s) ! 0 = example_queue ! 0"
    using F [THEN conjunct2, THEN conjunct1, rule_format, of 0] ids ne
    by simp
  have 2: "queue (settle (js ''gone'') example_result ?s) = example_queue"
    using G [THEN conjunct2, THEN conjunct2] ids ne
    by simp
  from 0 1 2 show ?thesis by simp
qed

subsection \<open>Saving a template\<close>

text \<open>
  Claim C8. \<open>handleTemplateSave\<close> leaves the template list unchanged when the name or the
  message is blank after trimming. Otherwise it removes every template whose name is the
  trimmed new name and appends the new template, whose id is the value generated in this
  call. Hence saving name \<open>a\<close> with message \<open>x\<close> and then name \<open>a\<close> with message \<open>y\<close>
  leaves exactly one template named \<open>trim a\<close>, with message \<open>y\<close> and the second id.
\<close>

theorem template_save:
  "(trim (templateName s) = [] \<or> trim (message s) = [] \<longrightarrow>
      templates (handleTemplateSave new_id s) = templates s)
   \<and> (trim (templateName s) \<noteq> [] \<and> trim (message s) \<noteq> [] \<longrightarrow>
      templates (handleTemplateSave new_id s) =
        filter (\<lambda>tpl. tpl_name tpl \<noteq> trim (templateName s)) (templates s)
          @ [\<lparr>tpl_id = new_id, tpl_name = trim (templateName s), tpl_message = message s,
               tpl_link = trim_or_undefined (link s),
               tpl_imageUrl = trim_or_undefined (imageUrl s)\<rparr>])
   \<and> (trim a \<noteq> [] \<and> trim x \<noteq> [] \<and> trim y \<noteq> [] \<longrightarrow>
      (\<exists>tpl. filter (\<lambda>tpl. tpl_name tpl = trim a)
                (templates (handleTemplateSave id2
                   ((handleTemplateSave id1 (s\<lparr>templateName := a, message := x\<rparr>))
                      \<lparr>templateName := a, message := y\<rparr>))) = [tpl]
             \<and> tpl_id tpl = id2 \<and> tpl_name tpl = trim a \<and> tpl_message tpl = y))"
proof (intro conjI impI)
  assume "trim (templateName s) = [] \<or> trim (message s) = []"
  then show "templates (handleTemplateSave new_id s) = templates s"
    by (auto simp: handleTemplateSave_def)
next
  assume "trim (templateName s) \<noteq> [] \<and> trim (message s) \<noteq> []"
  then show "templates (handleTemplateSave new_id s) =
        filter (\<lambda>tpl. tpl_name tpl \<noteq> trim (templateName s)) (templates s)
          @ [\<lparr>tpl_id = new_id, tpl_name = trim (templateName s), tpl_message = message s,
               tpl_link = trim_or_undefined (link s),
               tpl_imageUrl = trim_or_undefined (imageUrl s)\<rparr>]"
    by (simp add: handleTemplateSave_def Let_def)
next
  assume h: "trim a \<noteq> [] \<and> trim x \<noteq> [] \<and> trim y \<noteq> []"
  let ?s1 = "handleTemplateSave id1 (s\<lparr>templateName := a, message := x\<rparr>)"
  let ?t2 = "\<lparr>tpl_id = id2, tpl_name = trim a, tpl_message = y,
              tpl_link = trim_or_undefined (link ?s1),
              tpl_imageUrl = trim_or_undefined (imageUrl ?s1)\<rparr>"
  have "templates (handleTemplateSave id2 (?s1\<lparr>templateName := a, message := y\<rparr>)) =
          filter (\<lambda>tpl. tpl_name tpl \<noteq> trim a) (templates ?s1) @ [?t2]"
    using h by (simp add: handleTemplateSave_def Let_def)
  then have "filter (\<lambda>tpl. tpl_name tpl = trim a)
               (templates (handleTemplateSave id2 (?s1\<lparr>templateName := a, message := y\<rparr>))) = [?t2]"
    by (simp add: template_filter_other)
  then show "\<exists>tpl. filter (\<lambda>tpl. tpl_name tpl = trim a)
                (templates (handleTemplateSave id2 (?s1\<lparr>templateName := a, message := y\<rparr>))) = [tpl]
             \<and> tpl_id tpl = id2 \<and> tpl_name tpl = trim a \<and> tpl_message tpl = y"
    by simp
qed

theorem template_save_witness:
  "templates (handleTemplateSave (js ''id1'')
      ((initial_state [])\<lparr>templateName := js ''  '', message := js ''X''\<rparr>)) = []
   \<and> (\<exists>tpl. filter (\<lambda>tpl. tpl_name tpl = js ''A'')
              (templates (handleTemplateSave (js ''id2'')
                 ((handleTemplateSave (js ''id1'')
                     ((initial_state [])\<lparr>templateName := js '' A'', message := js ''X''\<rparr>))
                    \<lparr>templateName := js '' A'', message := js ''Y''\<rparr>))) = [tpl]
           \<and> tpl_id tpl = js ''id2'' \<and> tpl_name tpl = js ''A'' \<and> tpl_message tpl = js ''Y'')"
proof -
  have tr: "trim (js ''  '') = []" "trim (js '' A'') = js ''A''" "trim (js ''X'') = js ''X''"
      "trim (js ''Y'') = js ''Y''"
    by (simp_all add: trim_def js_def is_white_space_def)
  have ne: "js ''A'' \<noteq> []" "js ''X'' \<noteq> []" "js ''Y'' \<noteq> []"
    by (simp_all add: js_def)
  have 1: "templates (handleTemplateSave (js ''id1'')
      ((initial_state [])\<lparr>templateName := js ''  '', message := js ''X''\<rparr>)) = []"
    using template_save [of "(initial_state [])\<lparr>templateName := js ''  '', message := js ''X''\<rparr>"
            "js ''id1''"] tr
    by (simp add: initial_state_def)
  have 2: "\<exists>tpl. filter (\<lambda>tpl. tpl_name tpl = js ''A'')
              (templates (handleTemplateSave (js ''id2'')
                 ((handleTemplateSave (js ''id1'')
                     ((initial_state [])\<lparr>templateName := js '' A'', message := js ''X''\<rparr>))
                    \<lparr>templateName := js '' A'', message := js ''Y''\<rparr>))) = [tpl]
           \<and> tpl_id tpl = js ''id2'' \<and> tpl_name tpl = js ''A'' \<and> tpl_message tpl = js ''Y''"
    using template_save [where a = "js '' A''" and x = "js ''X''" and y = "js ''Y''"
            and ?id1.0 = "js ''id1''" and ?id2.0 = "js ''id2''" and s = "initial_state []"] tr ne
    by simp
  from 1 2 show ?thesis by simp
qed

subsection \<open>Applying a template\<close>

text \<open>
  Claim C9. Applying a template twice gives the same state as applying it once, and
  then the composer's message, link and image URL are the template's (an absent link or
  image URL is the empty field). Applying a template leaves the credentials, the mode,
  the scheduled time and the memoised \<open>canSchedule\<close> unchanged.
\<close>

theorem applyTemplate_idempotent:
  "applyTemplate template (applyTemplate template s) = applyTemplate template s
   \<and> message (applyTemplate template (applyTemplate template s)) = tpl_message template
   \<and> link (applyTemplate template (applyTemplate template s)) =
       (case tpl_link template of None \<Rightarrow> [] | Some l \<Rightarrow> l)
   \<and> imageUrl (applyTemplate template (applyTemplate template s)) =
       (case tpl_imageUrl template of None \<Rightarrow> [] | Some u \<Rightarrow> u)
   \<and> pageId (applyTemplate template s) = pageId s
   \<and> accessToken (applyTemplate template s) = accessToken s
   \<and> mode (applyTemplate template s) = mode s
   \<and> scheduledTime (applyTemplate template s) = scheduledTime s
   \<and> canSchedule (applyTemplate template s) = canSchedule s
   \<and> canSchedule_deps (applyTemplate template s) = canSchedule_deps s"
  by (simp add: applyTemplate_def)

subsection \<open>The submission gate\<close>

text \<open>
  Claim C6. The gate of \<open>enqueuePost\<close> rejects blank fields (\<open>enqueuePost_rejects_blank\<close>)
  and, in schedule mode, a false \<open>canSchedule\<close> (\<open>enqueuePost_rejects_memo\<close>); otherwise
  it puts a pending entry at the head of the queue and issues the relay call
  (\<open>enqueuePost_accepts\<close>). But \<open>canSchedule\<close> is the value memoised by \<open>useMemo\<close> for the
  dependencies \<open>[mode, scheduledTime]\<close>: a render that changes neither keeps it
  (\<open>render_keeps_memo\<close>), so it is not evaluated again at the moment of the submit check.
  In the session below the scheduled time (3600000 ms) is in the future when "Schedule"
  is clicked (clock 1000) and in the past at submission (clock 3700000), where the
  memoised function would give false: \<open>canSchedule\<close> is still true, the entry is queued as
  pending and the relay call is issued with the past time.
\<close>

theorem enqueuePost_stale_canSchedule:
  "mode stale_session = Schedule
   \<and> scheduledTime stale_session = js ''1970-01-01T01:00''
   \<and> canSchedule_body example_parseISO 1000 (mode stale_session) (scheduledTime stale_session)
   \<and> \<not> canSchedule_body example_parseISO 3700000 (mode stale_session) (scheduledTime stale_session)
   \<and> canSchedule stale_session
   \<and> map q_status (queue (fst (enqueuePost (js ''q1'') (js ''1970-01-01T01:01:40.000Z'') stale_session)))
       = [Pending]
   \<and> snd (enqueuePost (js ''q1'') (js ''1970-01-01T01:01:40.000Z'') stale_session) =
       Some (js ''q1'',
             \<lparr>p_pageId = js ''123'', p_accessToken = js ''tok'', p_message = js ''hello'',
              p_link = None, p_imageUrl = None,
              p_scheduledTime = Some (js ''1970-01-01T01:00''), p_mode = Schedule\<rparr>)"
proof -
  have s: "stale_session =
     \<lparr>pageId = js ''123'', accessToken = js ''tok'', mode = Schedule, message = js ''hello'',
      link = [], imageUrl = [], scheduledTime = js ''1970-01-01T01:00'', templates = [],
      templateName = [], queue = [], error = None, success = None, canSchedule = True,
      canSchedule_deps = (Schedule, js ''1970-01-01T01:00'')\<rparr>"
    by (simp add: stale_session_def render_def first_render_def initial_state_def
          canSchedule_body_def isFuture_def example_parseISO_def)
  have tr: "trim (js ''123'') = js ''123''" "trim (js ''tok'') = js ''tok''"
      "trim (js ''hello'') = js ''hello''" "trim [] = []"
    by (simp_all add: trim_def js_def is_white_space_def)
  have ne: "js ''123'' \<noteq> []" "js ''tok'' \<noteq> []" "js ''hello'' \<noteq> []"
    by (simp_all add: js_def)
  show ?thesis
    unfolding s
    by (simp add: enqueuePost_def Let_def tr ne trim_or_undefined_def canSchedule_body_def
          isFuture_def example_parseISO_def)
qed

end
